theory Spec2Isabelle
  imports Main
begin

section \<open>JavaScript values and objects\<close>

text \<open>
  The hooks of \<^verbatim>\<open>mail/base/content/lifeTabs.js\<close> receive plain JavaScript objects
  (the open arguments, the persisted state). An object is a finite map from property
  names to primitive values; reading a property that is not there gives \<open>undefined\<close>.
\<close>

datatype jsval = JUndefined | JNull | JBool bool | JNum int | JStr string

type_synonym jsobj = "string \<rightharpoonup> jsval"

fun truthy :: "jsval \<Rightarrow> bool" where
  "truthy JUndefined = False"
| "truthy JNull = False"
| "truthy (JBool b) = b"
| "truthy (JNum n) = (n \<noteq> 0)"
| "truthy (JStr s) = (s \<noteq> [])"

definition getprop :: "jsobj \<Rightarrow> string \<Rightarrow> jsval" where
  "getprop obj k = (case obj k of None \<Rightarrow> JUndefined | Some v \<Rightarrow> v)"

text \<open>\<open>a || b\<close> on values.\<close>

definition js_or :: "jsval \<Rightarrow> jsval \<Rightarrow> jsval" where
  "js_or a b = (if truthy a then a else b)"

datatype js_error = TypeError

text \<open>\<open>Array.prototype.indexOf\<close>: the first position of the element, or \<open>-1\<close>.\<close>

fun indexOf :: "'a list \<Rightarrow> 'a \<Rightarrow> int" where
  "indexOf [] x = -1"
| "indexOf (y # ys) x =
     (if y = x then 0 else (let i = indexOf ys x in if i < 0 then -1 else i + 1))"

section \<open>The window: tabs, browser elements, the tabmail element\<close>

type_synonym tab_ref = nat
type_synonym elem_ref = nat

text \<open>
  An \<open>nsIURI\<close> of the platform: its \<open>spec\<close> is the serialisation of the scheme, a colon
  and the rest.
\<close>

record nsIURI =
  scheme :: string
  schemeSpecificPart :: string

definition spec :: "nsIURI \<Rightarrow> string" where
  "spec u = scheme u @ '':'' @ schemeSpecificPart u"

text \<open>
  A \<open><browser>\<close> element: its attributes, its current URI (\<open>null\<close> while it has no
  navigation), and the loads requested of it through \<open>MailE10SUtils.loadURI\<close>, oldest
  first.
\<close>

record browser_el =
  attrs :: "string \<rightharpoonup> string"
  currentURI :: "nsIURI option"
  loadRequests :: "jsval list"

text \<open>
  The tab info object the engine creates for a tab and hands to the hooks. \<open>mode_name\<close>
  is \<open>tab.mode.name\<close>, \<open>icon\<close> what \<open>tab.tabNode.setIcon\<close> was last given, \<open>browser\<close>
  the element \<open>tab.browser\<close> refers to (\<open>None\<close>: \<open>null\<close> or \<open>undefined\<close>).
\<close>

datatype surface = SharedSurface string | OwnSurface nat

record tab_info =
  mode_name :: string
  tabId :: nat
  title :: "string option"
  icon :: "string option"
  browser :: "elem_ref option"
  panel :: "surface option"
  busy :: bool
  thinking :: bool
  canClose :: bool
  first :: bool

text \<open>
  The state of the \<open>tabmail\<close> element the hooks read: \<open>tabInfo\<close>, \<open>currentTabInfo\<close>, and
  for each registered mode name the array \<open>tabModes[name].tabs\<close>.
\<close>

record tabmail =
  tabInfo :: "tab_ref list"
  currentTabInfo :: "tab_ref option"
  tabModes_tabs :: "string \<rightharpoonup> tab_ref list"
  nextTabId :: nat

text \<open>
  The window as the hooks see it. \<open>doc_tabmail\<close> is \<open>document.getElementById("tabmail")\<close>
  and \<open>doc_lifeTabBrowser\<close> is \<open>document.getElementById("lifeTabBrowser")\<close> (\<open>None\<close>:
  \<open>null\<close>). Tab info objects and elements live in stores indexed by reference, so that
  two tabs can hold the same browser element. \<open>pending_checks\<close> are the health checks
  started and not yet settled (only the variant of the type in the second copy starts
  any).
\<close>

record world =
  doc_tabmail :: "tabmail option"
  doc_lifeTabBrowser :: "elem_ref option"
  tabs :: "tab_ref \<Rightarrow> tab_info"
  elems :: "elem_ref \<Rightarrow> browser_el"
  pending_checks :: "(tab_ref \<times> jsval) list"

definition setAttribute :: "elem_ref \<Rightarrow> string \<Rightarrow> string \<Rightarrow> world \<Rightarrow> world" where
  "setAttribute b k v w =
     w\<lparr>elems := (elems w)(b := (elems w b)\<lparr>attrs := (attrs (elems w b))(k \<mapsto> v)\<rparr>)\<rparr>"

definition removeAttribute :: "elem_ref \<Rightarrow> string \<Rightarrow> world \<Rightarrow> world" where
  "removeAttribute b k w =
     w\<lparr>elems := (elems w)(b := (elems w b)\<lparr>attrs := (attrs (elems w b))(k := None)\<rparr>)\<rparr>"

text \<open>
  \<open>MailE10SUtils.loadURI(browser, url)\<close> belongs to another module; here it records the
  request at the element.
\<close>

definition loadURI :: "elem_ref \<Rightarrow> jsval \<Rightarrow> world \<Rightarrow> world" where
  "loadURI b url w =
     w\<lparr>elems := (elems w)(b := (elems w b)\<lparr>loadRequests := loadRequests (elems w b) @ [url]\<rparr>)\<rparr>"

definition setIcon :: "tab_ref \<Rightarrow> string \<Rightarrow> world \<Rightarrow> world" where
  "setIcon t i w = w\<lparr>tabs := (tabs w)(t := (tabs w t)\<lparr>icon := Some i\<rparr>)\<rparr>"

definition set_title :: "tab_ref \<Rightarrow> string \<Rightarrow> world \<Rightarrow> world" where
  "set_title t s w = w\<lparr>tabs := (tabs w)(t := (tabs w t)\<lparr>title := Some s\<rparr>)\<rparr>"

definition set_browser :: "tab_ref \<Rightarrow> elem_ref option \<Rightarrow> world \<Rightarrow> world" where
  "set_browser t b w = w\<lparr>tabs := (tabs w)(t := (tabs w t)\<lparr>browser := b\<rparr>)\<rparr>"

section \<open>lifeTabs.js\<close>

definition LIFE_DASHBOARD_DEFAULT_URL :: string where
  "LIFE_DASHBOARD_DEFAULT_URL =
     ''data:text/html,<html><head><title>Life Dashboard</title><style>body{font-family:system-ui,-apple-system,sans-serif;display:flex;justify-content:center;align-items:center;min-height:100vh;margin:0;background:linear-gradient(135deg,%23667eea%200%25,%23764ba2%20100%25);color:white;}</style></head><body><div style='text-align:center'><h1>Life Dashboard</h1><p>Browser element loaded successfully!</p><p>Ready for FastAPI backend connection.</p></div></body></html>''"

subsection \<open>lifeTabMonitor\<close>

definition onTabTitleChanged :: "world \<Rightarrow> js_error + world" where
  "onTabTitleChanged w = Inr w"

definition onTabOpened :: "world \<Rightarrow> js_error + world" where
  "onTabOpened w = Inr w"

definition onTabClosing :: "world \<Rightarrow> js_error + world" where
  "onTabClosing w = Inr w"

definition onTabPersist :: "world \<Rightarrow> js_error + world" where
  "onTabPersist w = Inr w"

definition onTabRestored :: "world \<Rightarrow> js_error + world" where
  "onTabRestored w = Inr w"

text \<open>\<open>aTab?.mode.name === "life"\<close>, for a tab handle or \<open>null\<close>.\<close>

definition is_life :: "tab_ref option \<Rightarrow> world \<Rightarrow> bool" where
  "is_life aTab w = (case aTab of None \<Rightarrow> False | Some t \<Rightarrow> mode_name (tabs w t) = ''life'')"

definition onTabSwitched :: "tab_ref option \<Rightarrow> tab_ref option \<Rightarrow> world \<Rightarrow> js_error + world" where
  "onTabSwitched aNewTab aOldTab w =
     (let w1 = (if is_life aOldTab w then w else w);
          w2 = (if is_life aNewTab w1 then w1 else w1)
      in Inr w2)"

subsection \<open>lifeTabType.modes.life\<close>

definition openTab :: "tab_ref \<Rightarrow> jsobj \<Rightarrow> world \<Rightarrow> js_error + world" where
  "openTab tab args w =
     (let w1 = setIcon tab ''chrome://messenger/skin/icons/new/compact/calendar.svg'' w;
          w2 = set_title tab ''Life Dashboard'' w1;
          w3 = set_browser tab (doc_lifeTabBrowser w2) w2
      in case browser (tabs w3 tab) of
           None \<Rightarrow> Inr w3
         | Some b \<Rightarrow>
             (let w4 = setAttribute b ''type'' ''content'' w3;
                  url = js_or (getprop args ''url'') (JStr LIFE_DASHBOARD_DEFAULT_URL)
              in Inr (loadURI b url w4)))"

definition showTab :: "tab_ref \<Rightarrow> world \<Rightarrow> js_error + world" where
  "showTab tab w =
     (case browser (tabs w tab) of
        None \<Rightarrow> Inr w
      | Some b \<Rightarrow> Inr (setAttribute b ''primary'' ''true'' (setAttribute b ''type'' ''content'' w)))"

definition closeTab :: "tab_ref \<Rightarrow> world \<Rightarrow> js_error + world" where
  "closeTab tab w = Inr w"

text \<open>
  \<open>tab.browser?.currentURI?.spec\<close>: \<open>undefined\<close> when a link of the chain is missing.
\<close>

definition browser_spec :: "tab_ref \<Rightarrow> world \<Rightarrow> jsval" where
  "browser_spec tab w =
     (case browser (tabs w tab) of
        None \<Rightarrow> JUndefined
      | Some b \<Rightarrow>
          (case currentURI (elems w b) of
             None \<Rightarrow> JUndefined
           | Some u \<Rightarrow> JStr (spec u)))"

definition persistTab :: "tab_ref \<Rightarrow> world \<Rightarrow> js_error + (jsobj \<times> world)" where
  "persistTab tab w =
     (case doc_tabmail w of
        None \<Rightarrow> Inl TypeError
      | Some tabmail \<Rightarrow>
          (let state = [''background'' \<mapsto> JBool (Some tab \<noteq> currentTabInfo tabmail)];
               state' = (if truthy (browser_spec tab w)
                         then state(''url'' \<mapsto> browser_spec tab w) else state)
           in Inr (state', w)))"

text \<open>
  \<open>restoreTab(tabmail, state)\<close> is handed the engine; \<open>tabmail_openTab\<close> is its
  \<open>openTab\<close> method. The value \<open>openTab\<close> returns is dropped.
\<close>

definition restoreTab ::
  "(string \<Rightarrow> jsobj \<Rightarrow> world \<Rightarrow> 'e + ('r \<times> world)) \<Rightarrow> jsobj \<Rightarrow> world \<Rightarrow> 'e + world" where
  "restoreTab tabmail_openTab state w =
     (case tabmail_openTab ''life'' [''background'' \<mapsto> getprop state ''background''] w of
        Inl e \<Rightarrow> Inl e
      | Inr (r, w') \<Rightarrow> Inr w')"

definition onTitleChanged :: "tab_ref \<Rightarrow> world \<Rightarrow> js_error + world" where
  "onTitleChanged tab w = Inr (set_title tab ''Life Dashboard'' w)"

definition shouldSwitchTo :: "jsobj \<Rightarrow> world \<Rightarrow> js_error + (int \<times> world)" where
  "shouldSwitchTo args w =
     (case doc_tabmail w of
        None \<Rightarrow> Inl TypeError
      | Some tabmail \<Rightarrow>
          (case tabModes_tabs tabmail ''life'' of
             None \<Rightarrow> Inl TypeError
           | Some life_tabs \<Rightarrow>
               (case life_tabs of
                  [] \<Rightarrow> Inr (-1, w)
                | t0 # _ \<Rightarrow> Inr (indexOf (tabInfo tabmail) t0, w))))"

definition getBrowser :: "tab_ref \<Rightarrow> world \<Rightarrow> js_error + (elem_ref option \<times> world)" where
  "getBrowser tab w =
     (case browser (tabs w tab) of
        Some b \<Rightarrow> Inr (Some b, w)
      | None \<Rightarrow> Inr (doc_lifeTabBrowser w, w))"

definition supportsCommand :: "string \<Rightarrow> world \<Rightarrow> js_error + (bool \<times> world)" where
  "supportsCommand aCommand w = Inr (False, w)"

definition isCommandEnabled :: "string \<Rightarrow> world \<Rightarrow> js_error + (bool \<times> world)" where
  "isCommandEnabled aCommand w = Inr (False, w)"

definition doCommand :: "string \<Rightarrow> world \<Rightarrow> js_error + world" where
  "doCommand aCommand w = Inr w"

definition onEvent :: "string \<Rightarrow> world \<Rightarrow> js_error + world" where
  "onEvent aEvent w = Inr w"

subsection \<open>lifeTabType, type level\<close>

definition saveTabState :: "tab_ref \<Rightarrow> world \<Rightarrow> js_error + world" where
  "saveTabState tab w =
     (case browser (tabs w tab) of
        None \<Rightarrow> Inr w
      | Some b \<Rightarrow> Inr (removeAttribute b ''primary'' (setAttribute b ''type'' ''content'' w)))"


section \<open>The second copy of the type\<close>


text \<open>
  The template literal after its two \<open>replace\<close> calls: line breaks removed, every run
  of two or more white-space characters turned into one space.
\<close>

definition LIFE_DASHBOARD_ERROR_PAGE :: string where
  "LIFE_DASHBOARD_ERROR_PAGE =
     ''data:text/html,<!DOCTYPE html><html><head> <meta charset=\"utf-8\"> <title>Life Dashboard - Backend Unavailable</title> <style> * { box-sizing: border-box; margin: 0; padding: 0; } body { font-family: system-ui, -apple-system, BlinkMacSystemFont, 'Segoe UI', Roboto, sans-serif; display: flex; justify-content: center; align-items: center; min-height: 100vh; background: linear-gradient(135deg, %231a1a2e 0%25, %2316213e 100%25); color: %23e0e0e0; padding: 20px; } .container { background: %232d2d44; border-radius: 12px; padding: 40px; max-width: 550px; box-shadow: 0 4px 20px rgba(0, 0, 0, 0.3); text-align: center; } h1 { color: %23667eea; margin-bottom: 16px; font-size: 24px; } .status { background: %23453a2e; border: 1px solid %23b8860b; border-radius: 8px; padding: 16px; margin: 20px 0; } .status-icon { font-size: 48px; margin-bottom: 12px; } p { color: %23aaa; line-height: 1.6; margin-bottom: 12px; } .instructions { text-align: left; background: %23252538; border-radius: 8px; padding: 16px; margin-top: 20px; } .instructions h3 { color: %23e0e0e0; margin-bottom: 12px; font-size: 16px; } .instructions ol { padding-left: 20px; } .instructions li { margin-bottom: 10px; color: %23bbb; } code { background: %231a1a2e; padding: 2px 8px; border-radius: 4px; font-family: 'SF Mono', Monaco, 'Courier New', monospace; font-size: 13px; color: %2398d8c8; } .retry-btn { background: %23667eea; color: white; border: none; padding: 12px 24px; border-radius: 8px; font-size: 16px; cursor: pointer; margin-top: 20px; transition: background 0.2s; } .retry-btn:hover { background: %235563d9; } .troubleshoot { text-align: left; background: %231e1e30; border-radius: 8px; padding: 16px; margin-top: 16px; border: 1px solid %23333; } .troubleshoot h3 { color: %23e0e0e0; margin-bottom: 10px; font-size: 14px; } .troubleshoot ul { padding-left: 18px; margin: 0; } .troubleshoot li { margin-bottom: 6px; color: %23999; font-size: 13px; } </style></head><body> <div class=\"container\"> <h1>Life Dashboard</h1> <div class=\"status\"> <div class=\"status-icon\">%E2%9A%A0%EF%B8%8F</div> <strong>Backend Server Not Available</strong> </div> <p>The Life Dashboard backend is not running at <code>http://localhost:8000</code></p> <div class=\"instructions\"> <h3>Quick Start:</h3> <ol> <li>Open a terminal in the <code>email-poc/v1</code> directory</li> <li>Build the dashboard: <code>./packages/api/scripts/build-dashboard.sh</code></li> <li>Start the server: <code>uv run uvicorn api.main:app</code></li> <li>Wait for \"Application startup complete\"</li> <li>Click <strong>Retry Connection</strong> below</li> </ol> </div> <div class=\"troubleshoot\"> <h3>Troubleshooting:</h3> <ul> <li>Verify the server is running: <code>curl http://localhost:8000/health</code></li> <li>Check if port 8000 is available or in use</li> <li>Ensure PostgreSQL database is running and accessible</li> <li>Check terminal for error messages</li> <li>Review logs in the API package directory</li> </ul> </div> <button class=\"retry-btn\" onclick=\"window.location.reload()\"> Retry Connection </button> </div></body></html>''"

definition onTabTitleChanged_alt :: "world \<Rightarrow> js_error + world" where
  "onTabTitleChanged_alt w = Inr w"

definition onTabOpened_alt :: "world \<Rightarrow> js_error + world" where
  "onTabOpened_alt w = Inr w"

definition onTabClosing_alt :: "world \<Rightarrow> js_error + world" where
  "onTabClosing_alt w = Inr w"

definition onTabPersist_alt :: "world \<Rightarrow> js_error + world" where
  "onTabPersist_alt w = Inr w"

definition onTabRestored_alt :: "world \<Rightarrow> js_error + world" where
  "onTabRestored_alt w = Inr w"

definition onTabSwitched_alt ::
  "tab_ref option \<Rightarrow> tab_ref option \<Rightarrow> world \<Rightarrow> js_error + world" where
  "onTabSwitched_alt aNewTab aOldTab w =
     (let w1 = (if is_life aOldTab w then w else w);
          w2 = (if is_life aNewTab w1 then w1 else w1)
      in Inr w2)"

text \<open>
  \<open>checkBackendAndLoad\<close> is an \<open>async\<close> method. The call runs up to the \<open>await\<close> of
  \<open>fetch\<close> and returns a promise nobody waits for: the check is pending. The rest of the
  body runs when the request settles, with one of three outcomes: a response with
  \<open>response.ok\<close>, a response without, or a rejection (network error, or the abort after
  3000 ms).
\<close>

datatype health = ResponseOk | ResponseNotOk | FetchRejected


text \<open>
  The continuation. \<open>tab.browser\<close> is read when it runs; without a browser
  \<open>MailE10SUtils.loadURI\<close> throws in the \<open>try\<close> and again in the \<open>catch\<close>, the promise is
  rejected and nothing was loaded.
\<close>

definition checkBackendAndLoad_settled :: "health \<Rightarrow> tab_ref \<Rightarrow> jsval \<Rightarrow> world \<Rightarrow> world" where
  "checkBackendAndLoad_settled h tab url w =
     (case browser (tabs w tab) of
        None \<Rightarrow> w
      | Some b \<Rightarrow>
          (case h of
             ResponseOk \<Rightarrow> loadURI b url w
           | ResponseNotOk \<Rightarrow> loadURI b (JStr LIFE_DASHBOARD_ERROR_PAGE) w
           | FetchRejected \<Rightarrow> loadURI b (JStr LIFE_DASHBOARD_ERROR_PAGE) w))"

text \<open>The oldest pending check settles.\<close>

definition settle :: "health \<Rightarrow> world \<Rightarrow> world" where
  "settle h w =
     (case pending_checks w of
        [] \<Rightarrow> w
      | (tab, url) # rest \<Rightarrow> checkBackendAndLoad_settled h tab url (w\<lparr>pending_checks := rest\<rparr>))"







definition restoreTab_alt ::
  "(string \<Rightarrow> jsobj \<Rightarrow> world \<Rightarrow> 'e + ('r \<times> world)) \<Rightarrow> jsobj \<Rightarrow> world \<Rightarrow> 'e + world" where
  "restoreTab_alt tabmail_openTab state w =
     (case tabmail_openTab ''life'' [''background'' \<mapsto> getprop state ''background''] w of
        Inl e \<Rightarrow> Inl e
      | Inr (r, w') \<Rightarrow> Inr w')"










section \<open>Descriptors\<close>

text \<open>
  What \<open>registerTabType\<close> and \<open>registerTabMonitor\<close> are given: object literals whose
  properties are hooks. A hook a literal does not define is \<open>None\<close>.
\<close>

datatype engine_error =
    DuplicateTypeName | DuplicateModeName | InvalidDescriptor | UnknownMode
  | ModeCapacityExceeded | CannotCloseLastTab | HookFailure js_error

type_synonym engine_openTab = "string \<Rightarrow> jsobj \<Rightarrow> world \<Rightarrow> engine_error + (tab_ref \<times> world)"

record mode_desc =
  m_type :: string
  maxTabs :: "nat option"
  m_openTab :: "(tab_ref \<Rightarrow> jsobj \<Rightarrow> world \<Rightarrow> js_error + world) option"
  m_showTab :: "(tab_ref \<Rightarrow> world \<Rightarrow> js_error + world) option"
  m_closeTab :: "(tab_ref \<Rightarrow> world \<Rightarrow> js_error + world) option"
  m_saveTabState :: "(tab_ref \<Rightarrow> world \<Rightarrow> js_error + world) option"
  m_persistTab :: "(tab_ref \<Rightarrow> world \<Rightarrow> js_error + (jsobj \<times> world)) option"
  m_restoreTab :: "(engine_openTab \<Rightarrow> jsobj \<Rightarrow> world \<Rightarrow> engine_error + world) option"
  m_onTitleChanged :: "(tab_ref \<Rightarrow> world \<Rightarrow> js_error + world) option"
  m_shouldSwitchTo :: "(jsobj \<Rightarrow> world \<Rightarrow> js_error + (int \<times> world)) option"
  m_getBrowser :: "(tab_ref \<Rightarrow> world \<Rightarrow> js_error + (elem_ref option \<times> world)) option"
  m_supportsCommand :: "(string \<Rightarrow> world \<Rightarrow> js_error + (bool \<times> world)) option"
  m_isCommandEnabled :: "(string \<Rightarrow> world \<Rightarrow> js_error + (bool \<times> world)) option"
  m_doCommand :: "(string \<Rightarrow> world \<Rightarrow> js_error + world) option"
  m_onEvent :: "(string \<Rightarrow> world \<Rightarrow> js_error + world) option"

record tab_type =
  name :: string
  panelId :: "string option"
  perTabPanel :: "string option"
  modes :: "(string \<times> mode_desc) list"
  t_openTab :: "(tab_ref \<Rightarrow> jsobj \<Rightarrow> world \<Rightarrow> js_error + world) option"
  t_closeTab :: "(tab_ref \<Rightarrow> world \<Rightarrow> js_error + world) option"
  t_saveTabState :: "(tab_ref \<Rightarrow> world \<Rightarrow> js_error + world) option"
  t_showTab :: "(tab_ref \<Rightarrow> world \<Rightarrow> js_error + world) option"

record tab_monitor =
  monitorName :: string
  mon_onTabTitleChanged :: "tab_ref \<Rightarrow> world \<Rightarrow> js_error + world"
  mon_onTabOpened :: "tab_ref \<Rightarrow> world \<Rightarrow> js_error + world"
  mon_onTabClosing :: "tab_ref \<Rightarrow> world \<Rightarrow> js_error + world"
  mon_onTabPersist :: "tab_ref \<Rightarrow> world \<Rightarrow> js_error + world"
  mon_onTabRestored :: "tab_ref \<Rightarrow> world \<Rightarrow> js_error + world"
  mon_onTabSwitched :: "tab_ref option \<Rightarrow> tab_ref option \<Rightarrow> world \<Rightarrow> js_error + world"

text \<open>The handlers of \<open>lifeTabMonitor\<close> that declare no parameter ignore the tab.\<close>

definition lifeTabMonitor :: tab_monitor where
  "lifeTabMonitor =
     \<lparr>monitorName = ''lifeTabMonitor'',
      mon_onTabTitleChanged = (\<lambda>_. onTabTitleChanged),
      mon_onTabOpened = (\<lambda>_. onTabOpened),
      mon_onTabClosing = (\<lambda>_. onTabClosing),
      mon_onTabPersist = (\<lambda>_. onTabPersist),
      mon_onTabRestored = (\<lambda>_. onTabRestored),
      mon_onTabSwitched = onTabSwitched\<rparr>"

definition life_mode :: mode_desc where
  "life_mode =
     \<lparr>m_type = ''life'',
      maxTabs = Some 1,
      m_openTab = Some openTab,
      m_showTab = Some showTab,
      m_closeTab = Some closeTab,
      m_saveTabState = None,
      m_persistTab = Some persistTab,
      m_restoreTab = Some restoreTab,
      m_onTitleChanged = Some onTitleChanged,
      m_shouldSwitchTo = Some shouldSwitchTo,
      m_getBrowser = Some getBrowser,
      m_supportsCommand = Some supportsCommand,
      m_isCommandEnabled = Some isCommandEnabled,
      m_doCommand = Some doCommand,
      m_onEvent = Some onEvent\<rparr>"

definition lifeTabType :: tab_type where
  "lifeTabType =
     \<lparr>name = ''life'',
      panelId = Some ''lifeTabPanel'',
      perTabPanel = None,
      modes = [(''life'', life_mode)],
      t_openTab = None,
      t_closeTab = None,
      t_saveTabState = Some saveTabState,
      t_showTab = None\<rparr>"

definition lifeTabMonitor_alt :: tab_monitor where
  "lifeTabMonitor_alt =
     \<lparr>monitorName = ''lifeTabMonitor'',
      mon_onTabTitleChanged = (\<lambda>_. onTabTitleChanged_alt),
      mon_onTabOpened = (\<lambda>_. onTabOpened_alt),
      mon_onTabClosing = (\<lambda>_. onTabClosing_alt),
      mon_onTabPersist = (\<lambda>_. onTabPersist_alt),
      mon_onTabRestored = (\<lambda>_. onTabRestored_alt),
      mon_onTabSwitched = onTabSwitched_alt\<rparr>"



section \<open>The engine\<close>

text \<open>
  \<^verbatim>\<open>mail/base/content/tabmail.js\<close>, the engine the type registers with, is not among the
  sources. The definitions of this section follow the specification's sections 3 to 4.5.
\<close>

record registry =
  tabTypes :: "string \<rightharpoonup> tab_type"
  tabModes :: "string \<rightharpoonup> (mode_desc \<times> string)"
  monitors :: "tab_monitor list"

definition empty_registry :: registry where
  "empty_registry = \<lparr>tabTypes = Map.empty, tabModes = Map.empty, monitors = []\<rparr>"

definition bindE :: "'e + 'a \<Rightarrow> ('a \<Rightarrow> 'e + 'b) \<Rightarrow> 'e + 'b" where
  "bindE r f = (case r of Inl e \<Rightarrow> Inl e | Inr x \<Rightarrow> f x)"

definition upd_tabmail :: "(tabmail \<Rightarrow> tabmail) \<Rightarrow> world \<Rightarrow> world" where
  "upd_tabmail f w = w\<lparr>doc_tabmail := map_option f (doc_tabmail w)\<rparr>"

text \<open>
  Modelled from the spec: the check of the presentation strategy in \<open>register\<close>
  (\<open>registerTabType\<close> of the engine, missing from the sources). Section 3: exactly one of
  \<open>SharedPanel\<close> (\<open>panelId\<close>) and \<open>PerTabPanel\<close> (\<open>perTabPanel\<close>) is set.
\<close>

definition exactly_one_presentation :: "tab_type \<Rightarrow> bool" where
  "exactly_one_presentation d = ((panelId d \<noteq> None) \<noteq> (perTabPanel d \<noteq> None))"

text \<open>
  Modelled from the spec: \<open>register(descriptor)\<close> of section 4.1 (\<open>registerTabType\<close> of
  the engine, missing from the sources). It fails with \<open>DuplicateTypeName\<close> when the name
  is taken, with \<open>InvalidDescriptor\<close> when neither or both presentation strategies are
  set, with \<open>DuplicateModeName\<close> when a mode name is taken; otherwise every mode enters
  the mode registry and its tab tracking starts empty.
\<close>

definition registerTabType ::
  "tab_type \<Rightarrow> registry \<times> world \<Rightarrow> engine_error + (registry \<times> world)" where
  "registerTabType d rw =
     (let reg = fst rw; w = snd rw in
      if tabTypes reg (name d) \<noteq> None then Inl DuplicateTypeName
      else if \<not> exactly_one_presentation d then Inl InvalidDescriptor
      else if list_ex (\<lambda>m. tabModes reg m \<noteq> None) (map fst (modes d))
              \<or> \<not> distinct (map fst (modes d)) then Inl DuplicateModeName
      else Inr
        (reg\<lparr>tabTypes := (tabTypes reg)(name d \<mapsto> d),
             tabModes := fold (\<lambda>(m, md) tm. tm(m \<mapsto> (md, name d))) (modes d) (tabModes reg)\<rparr>,
         upd_tabmail
           (\<lambda>tm. tm\<lparr>tabModes_tabs :=
               fold (\<lambda>m tt. tt(m \<mapsto> [])) (map fst (modes d)) (tabModes_tabs tm)\<rparr>) w))"

text \<open>
  Modelled from the spec: \<open>registerTabMonitor\<close> of the engine (missing from the sources).
  Section 4.4: the monitors are an insertion-ordered set.
\<close>

definition registerTabMonitor :: "tab_monitor \<Rightarrow> registry \<times> world \<Rightarrow> registry \<times> world" where
  "registerTabMonitor m rw =
     (let reg = fst rw in
      if monitorName m \<in> set (map monitorName (monitors reg)) then rw
      else (reg\<lparr>monitors := monitors reg @ [m]\<rparr>, snd rw))"

text \<open>
  Modelled from the spec: the delivery of an event by the MonitorBus of section 4.4
  (missing from the sources): to every monitor in registration order; a monitor that
  fails neither stops the delivery nor the transition.
\<close>

definition notify ::
  "tab_monitor list \<Rightarrow> (tab_monitor \<Rightarrow> world \<Rightarrow> js_error + world) \<Rightarrow> world \<Rightarrow> world" where
  "notify ms ev w = fold (\<lambda>m w'. case ev m w' of Inl e \<Rightarrow> w' | Inr w'' \<Rightarrow> w'') ms w"

text \<open>
  Modelled from the spec: the two-level lookup of a lifecycle hook (section 9; the
  dispatch of the engine is missing from the sources): the hook of the mode if it has
  one, else the hook of its type.
\<close>

definition lookup_hook ::
  "registry \<Rightarrow> string \<Rightarrow> (mode_desc \<Rightarrow> 'h option) \<Rightarrow> (tab_type \<Rightarrow> 'h option) \<Rightarrow> 'h option" where
  "lookup_hook reg modeName of_mode of_type =
     (case tabModes reg modeName of
        None \<Rightarrow> None
      | Some (md, ty) \<Rightarrow>
          (case of_mode md of
             Some h \<Rightarrow> Some h
           | None \<Rightarrow> (case tabTypes reg ty of None \<Rightarrow> None | Some d \<Rightarrow> of_type d)))"

definition run_hook :: "(world \<Rightarrow> js_error + world) option \<Rightarrow> world \<Rightarrow> engine_error + world" where
  "run_hook h w =
     (case h of
        None \<Rightarrow> Inr w
      | Some f \<Rightarrow> (case f w of Inl e \<Rightarrow> Inl (HookFailure e) | Inr w' \<Rightarrow> Inr w'))"

text \<open>
  Modelled from the spec: the Switch transition of section 4.2 (\<open>switchToTab\<close> of the
  engine, missing from the sources). Switching to the selected tab is a no-op. Otherwise
  \<open>saveTabState\<close> of the outgoing tab's mode (or type) runs, then \<open>showTab\<close> of the
  incoming tab's mode, \<open>currentTabInfo\<close> is updated and the monitors hear
  \<open>onTabSwitched\<close> with both tabs.
\<close>

definition switchToTab :: "registry \<Rightarrow> tab_ref \<Rightarrow> world \<Rightarrow> engine_error + world" where
  "switchToTab reg t w =
     (case doc_tabmail w of
        None \<Rightarrow> Inl (HookFailure TypeError)
      | Some tm \<Rightarrow>
          if currentTabInfo tm = Some t then Inr w
          else
            bindE
              (case currentTabInfo tm of
                 None \<Rightarrow> Inr w
               | Some old \<Rightarrow>
                   run_hook
                     (map_option (\<lambda>h. h old)
                        (lookup_hook reg (mode_name (tabs w old)) m_saveTabState t_saveTabState)) w)
              (\<lambda>w1. bindE
                 (run_hook
                    (map_option (\<lambda>h. h t)
                       (lookup_hook reg (mode_name (tabs w1 t)) m_showTab t_showTab)) w1)
                 (\<lambda>w2. Inr
                    (notify (monitors reg)
                       (\<lambda>m. mon_onTabSwitched m (Some t) (currentTabInfo tm))
                       (upd_tabmail (\<lambda>tm'. tm'\<lparr>currentTabInfo := Some t\<rparr>) w2)))))"

text \<open>
  Modelled from the spec: the dedup step of the Open transition (section 4.2; the
  engine's \<open>openTab\<close> is missing from the sources): when the mode defines
  \<open>shouldSwitchTo\<close> and it returns a non-negative index of an existing tab, that tab.
\<close>

definition dedup_target ::
  "mode_desc \<Rightarrow> jsobj \<Rightarrow> world \<Rightarrow> engine_error + (tab_ref option \<times> world)" where
  "dedup_target md args w =
     (case m_shouldSwitchTo md of
        None \<Rightarrow> Inr (None, w)
      | Some f \<Rightarrow>
          (case f args w of
             Inl e \<Rightarrow> Inl (HookFailure e)
           | Inr (i, w') \<Rightarrow>
               (case doc_tabmail w' of
                  None \<Rightarrow> Inr (None, w')
                | Some tm \<Rightarrow>
                    if 0 \<le> i \<and> nat i < length (tabInfo tm)
                    then Inr (Some (tabInfo tm ! nat i), w') else Inr (None, w'))))"

text \<open>
  Modelled from the spec: the PanelAllocator of section 4.3 (missing from the sources):
  the one shared surface for a type with \<open>panelId\<close>, a fresh surface of the tab's own
  otherwise.
\<close>

definition allocate_surface :: "tab_type option \<Rightarrow> nat \<Rightarrow> surface" where
  "allocate_surface d fresh =
     (case d of
        None \<Rightarrow> OwnSurface fresh
      | Some ty \<Rightarrow> (case panelId ty of Some p \<Rightarrow> SharedSurface p | None \<Rightarrow> OwnSurface fresh))"

text \<open>
  Modelled from the spec: the Open transition of section 4.2 (\<open>openTab(modeName, args)\<close>
  of the engine, missing from the sources), in the order the specification gives:
  resolve the mode (\<open>UnknownMode\<close>); the dedup step, which ends in a Switch to the
  existing tab and returns it; the capacity check (\<open>ModeCapacityExceeded\<close>); the
  presentation surface; the new tab record with the next tab id; the \<open>openTab\<close> hook of
  the mode (or type); the record appended to the tab collection; \<open>onTabOpened\<close> to the
  monitors; and a Switch to the new tab unless it was opened in the background.
\<close>

definition openTab_engine :: "registry \<Rightarrow> engine_openTab" where
  "openTab_engine reg modeName args w =
     (case tabModes reg modeName of
        None \<Rightarrow> Inl UnknownMode
      | Some (md, ty) \<Rightarrow>
          bindE (dedup_target md args w)
            (\<lambda>(target, w1).
               case target of
                 Some t \<Rightarrow> bindE (switchToTab reg t w1) (\<lambda>w2. Inr (t, w2))
               | None \<Rightarrow>
                   (case doc_tabmail w1 of
                      None \<Rightarrow> Inl (HookFailure TypeError)
                    | Some tm \<Rightarrow>
                        let open_tabs =
                              (case tabModes_tabs tm modeName of None \<Rightarrow> [] | Some ts \<Rightarrow> ts)
                        in
                        if (case maxTabs md of None \<Rightarrow> False | Some n \<Rightarrow> n \<le> length open_tabs)
                        then Inl ModeCapacityExceeded
                        else
                          let t = nextTabId tm;
                              new_tab =
                                \<lparr>mode_name = modeName, tabId = t, title = None, icon = None,
                                 browser = None,
                                 panel = Some (allocate_surface (tabTypes reg ty) t),
                                 busy = False, thinking = False, canClose = True,
                                 first = (t = 0)\<rparr>;
                              w2 = upd_tabmail (\<lambda>tm'. tm'\<lparr>nextTabId := Suc t\<rparr>)
                                     (w1\<lparr>tabs := (tabs w1)(t := new_tab)\<rparr>)
                          in
                          bindE
                            (run_hook
                               (map_option (\<lambda>h. h t args)
                                  (lookup_hook reg modeName m_openTab t_openTab)) w2)
                            (\<lambda>w3.
                               let w4 = upd_tabmail
                                          (\<lambda>tm'. tm'\<lparr>tabInfo := tabInfo tm' @ [t],
                                                      tabModes_tabs :=
                                                        (tabModes_tabs tm')
                                                          (modeName \<mapsto>
                                                             (case tabModes_tabs tm' modeName of
                                                                None \<Rightarrow> [] | Some ts \<Rightarrow> ts)
                                                             @ [t])\<rparr>) w3;
                                   w5 = notify (monitors reg) (\<lambda>m. mon_onTabOpened m t) w4
                               in
                               if truthy (getprop args ''background'') then Inr (t, w5)
                               else bindE (switchToTab reg t w5) (\<lambda>w6. Inr (t, w6))))))"

section \<open>Registration on window load\<close>

text \<open>
  The \<open>load\<close> listener of \<^verbatim>\<open>lifeTabs.js\<close>: with a tabmail element in the document, the type
  and then the monitor are registered. A failed registration throws out of the listener.
\<close>

definition window_onload :: "registry \<times> world \<Rightarrow> engine_error + (registry \<times> world)" where
  "window_onload rw =
     (case doc_tabmail (snd rw) of
        None \<Rightarrow> Inr rw
      | Some tabmail \<Rightarrow>
          bindE (registerTabType lifeTabType rw) (\<lambda>rw'. Inr (registerTabMonitor lifeTabMonitor rw')))"

text \<open>The registry after the listener ran on the empty one.\<close>

definition life_registry :: registry where
  "life_registry =
     \<lparr>tabTypes = [''life'' \<mapsto> lifeTabType],
      tabModes = [''life'' \<mapsto> (life_mode, ''life'')],
      monitors = [lifeTabMonitor]\<rparr>"


section \<open>Example windows\<close>

text \<open>
  An engine stub for observing \<open>restoreTab\<close>: it stops with the call it was given.
\<close>

definition report_call :: "string \<Rightarrow> jsobj \<Rightarrow> world \<Rightarrow> (string \<times> jsobj) + (unit \<times> world)" where
  "report_call modeName args w = Inl (modeName, args)"

definition blank_browser :: browser_el where
  "blank_browser = \<lparr>attrs = Map.empty, currentURI = None, loadRequests = []\<rparr>"

definition blank_tab :: tab_info where
  "blank_tab =
     \<lparr>mode_name = [], tabId = 0, title = None, icon = None, browser = None, panel = None,
      busy = False, thinking = False, canClose = True, first = False\<rparr>"

text \<open>A window before the \<open>load\<close> listener ran: nothing registered, no tab.\<close>

definition fresh_window :: world where
  "fresh_window =
     \<lparr>doc_tabmail = Some \<lparr>tabInfo = [], currentTabInfo = None, tabModes_tabs = Map.empty,
                          nextTabId = 0\<rparr>,
      doc_lifeTabBrowser = Some 0,
      tabs = (\<lambda>_. blank_tab), elems = (\<lambda>_. blank_browser), pending_checks = []\<rparr>"

text \<open>The same window after the listener ran.\<close>

definition loaded_tabmail :: tabmail where
  "loaded_tabmail =
     \<lparr>tabInfo = [], currentTabInfo = None, tabModes_tabs = [''life'' \<mapsto> []], nextTabId = 0\<rparr>"

definition loaded_window :: world where
  "loaded_window =
     \<lparr>doc_tabmail = Some loaded_tabmail,
      doc_lifeTabBrowser = Some 0,
      tabs = (\<lambda>_. blank_tab), elems = (\<lambda>_. blank_browser), pending_checks = []\<rparr>"

text \<open>The window after \<open>openTab("life", {})\<close>: tab 0 is the life tab, selected.\<close>

definition one_life_tabmail :: tabmail where
  "one_life_tabmail =
     \<lparr>tabInfo = [0], currentTabInfo = Some 0, tabModes_tabs = [''life'' \<mapsto> [0]],
      nextTabId = Suc 0\<rparr>"

definition one_life_window :: world where
  "one_life_window =
     \<lparr>doc_tabmail = Some one_life_tabmail,
      doc_lifeTabBrowser = Some 0,
      tabs = (\<lambda>_. blank_tab)
        (0 := \<lparr>mode_name = ''life'', tabId = 0, title = Some ''Life Dashboard'',
               icon = Some ''chrome://messenger/skin/icons/new/compact/calendar.svg'',
               browser = Some 0, panel = Some (SharedSurface ''lifeTabPanel''),
               busy = False, thinking = False, canClose = True, first = True\<rparr>),
      elems = (\<lambda>_. blank_browser)
        (0 := \<lparr>attrs = [''type'' \<mapsto> ''content'', ''primary'' \<mapsto> ''true''],
               currentURI = None,
               loadRequests = [JStr LIFE_DASHBOARD_DEFAULT_URL]\<rparr>),
      pending_checks = []\<rparr>"

text \<open>The same window once the browser has navigated to the backend.\<close>

definition navigated_window :: world where
  "navigated_window =
     one_life_window
       \<lparr>elems := (elems one_life_window)
          (0 := (elems one_life_window 0)
             \<lparr>currentURI := Some \<lparr>scheme = ''http'', schemeSpecificPart = ''//localhost:8000/''\<rparr>\<rparr>)\<rparr>"

text \<open>
  A window with two tabs that hold different browser elements; tab 0 is selected and its
  browser carries \<open>primary\<close>.
\<close>

definition two_tab_window :: world where
  "two_tab_window =
     \<lparr>doc_tabmail = Some \<lparr>tabInfo = [0, 1], currentTabInfo = Some 0,
                          tabModes_tabs = [''life'' \<mapsto> [0]], nextTabId = 2\<rparr>,
      doc_lifeTabBrowser = Some 0,
      tabs = (\<lambda>_. blank_tab)
        (0 := blank_tab\<lparr>mode_name := ''life'', browser := Some 0\<rparr>,
         1 := blank_tab\<lparr>mode_name := ''other'', tabId := 1, browser := Some 1\<rparr>),
      elems = (\<lambda>_. blank_browser)
        (0 := blank_browser\<lparr>attrs := [''type'' \<mapsto> ''content'', ''primary'' \<mapsto> ''true'']\<rparr>),
      pending_checks = []\<rparr>"

text \<open>Two persisted states that differ in their \<open>url\<close> property only.\<close>

definition persisted_with_url :: jsobj where
  "persisted_with_url = [''background'' \<mapsto> JBool True, ''url'' \<mapsto> JStr ''http://example.org/'']"

definition persisted_without_url :: jsobj where
  "persisted_without_url = [''background'' \<mapsto> JBool True]"

section \<open>Lemmas\<close>

subsection \<open>Values\<close>

lemma spec_nonempty: "spec u \<noteq> []"
  by (simp add: spec_def)

lemma truthy_browser_spec:
  "truthy (browser_spec tab w)
     = (\<exists>b. browser (tabs w tab) = Some b \<and> currentURI (elems w b) \<noteq> None)"
  by (auto simp: browser_spec_def spec_nonempty split: option.splits)

subsection \<open>The hooks under the engine\<close>

lemma indexOf_ge: "- 1 \<le> indexOf xs x"
  by (induction xs) (auto simp: Let_def)

lemma indexOf_mem:
  "x \<in> set xs \<Longrightarrow> 0 \<le> indexOf xs x \<and> nat (indexOf xs x) < length xs \<and> xs ! nat (indexOf xs x) = x"
proof (induction xs)
  case Nil
  then show ?case by simp
next
  case (Cons y ys)
  show ?case
  proof (cases "y = x")
    case True
    then show ?thesis by simp
  next
    case False
    with Cons.prems have "x \<in> set ys" by simp
    from Cons.IH[OF this] False show ?thesis
      by (simp add: Let_def nat_add_distrib)
  qed
qed

lemma indexOf_not_mem: "x \<notin> set xs \<Longrightarrow> indexOf xs x = - 1"
  by (induction xs) (auto simp: Let_def)

lemma showTab_frame:
  "\<exists>w'. showTab t w = Inr w' \<and> doc_tabmail w' = doc_tabmail w \<and> tabs w' = tabs w
      \<and> doc_lifeTabBrowser w' = doc_lifeTabBrowser w \<and> pending_checks w' = pending_checks w"
  by (simp add: showTab_def setAttribute_def split: option.splits)

lemma saveTabState_frame:
  "\<exists>w'. saveTabState t w = Inr w' \<and> doc_tabmail w' = doc_tabmail w \<and> tabs w' = tabs w
      \<and> doc_lifeTabBrowser w' = doc_lifeTabBrowser w \<and> pending_checks w' = pending_checks w"
  by (simp add: saveTabState_def setAttribute_def removeAttribute_def split: option.splits)

lemma openTab_frame:
  "\<exists>w'. openTab t args w = Inr w' \<and> doc_tabmail w' = doc_tabmail w
      \<and> doc_lifeTabBrowser w' = doc_lifeTabBrowser w
      \<and> tabs w' = (tabs w)(t := (tabs w t)
            \<lparr>title := Some ''Life Dashboard'',
             icon := Some ''chrome://messenger/skin/icons/new/compact/calendar.svg'',
             browser := doc_lifeTabBrowser w\<rparr>)"
  by (auto simp: openTab_def setAttribute_def loadURI_def setIcon_def set_title_def
      set_browser_def Let_def split: option.splits)

lemma lookup_life_saveTabState:
  "lookup_hook life_registry m m_saveTabState t_saveTabState
     = (if m = ''life'' then Some saveTabState else None)"
  by (simp add: lookup_hook_def life_registry_def life_mode_def lifeTabType_def)

lemma lookup_life_showTab:
  "lookup_hook life_registry m m_showTab t_showTab
     = (if m = ''life'' then Some showTab else None)"
  by (simp add: lookup_hook_def life_registry_def life_mode_def lifeTabType_def)

lemma lookup_life_openTab:
  "lookup_hook life_registry m m_openTab t_openTab
     = (if m = ''life'' then Some openTab else None)"
  by (simp add: lookup_hook_def life_registry_def life_mode_def lifeTabType_def)

lemma notify_life_switched:
  "notify (monitors life_registry) (\<lambda>m. mon_onTabSwitched m a b) w = w"
  by (simp add: notify_def life_registry_def lifeTabMonitor_def onTabSwitched_def)

lemma notify_life_opened:
  "notify (monitors life_registry) (\<lambda>m. mon_onTabOpened m t) w = w"
  by (simp add: notify_def life_registry_def lifeTabMonitor_def onTabOpened_def)

lemma run_saveTabState:
  "\<exists>w'. run_hook (map_option (\<lambda>h. h old) (lookup_hook life_registry m m_saveTabState t_saveTabState)) w = Inr w'
      \<and> doc_tabmail w' = doc_tabmail w \<and> tabs w' = tabs w
      \<and> doc_lifeTabBrowser w' = doc_lifeTabBrowser w"
  using saveTabState_frame[of old w]
  by (auto simp: lookup_life_saveTabState run_hook_def)

lemma run_showTab:
  "\<exists>w'. run_hook (map_option (\<lambda>h. h t) (lookup_hook life_registry m m_showTab t_showTab)) w = Inr w'
      \<and> doc_tabmail w' = doc_tabmail w \<and> tabs w' = tabs w
      \<and> doc_lifeTabBrowser w' = doc_lifeTabBrowser w"
  using showTab_frame[of t w]
  by (auto simp: lookup_life_showTab run_hook_def)

lemma switchToTab_life:
  assumes "doc_tabmail w = Some tm"
  shows "\<exists>w'. switchToTab life_registry t w = Inr w'
      \<and> doc_tabmail w' = Some (tm\<lparr>currentTabInfo := Some t\<rparr>) \<and> tabs w' = tabs w
      \<and> doc_lifeTabBrowser w' = doc_lifeTabBrowser w"
proof (cases "currentTabInfo tm = Some t")
  case True
  then have "tm\<lparr>currentTabInfo := Some t\<rparr> = tm" by simp
  with True assms show ?thesis by (simp add: switchToTab_def)
next
  case False
  obtain w1 where s1: "(case currentTabInfo tm of None \<Rightarrow> Inr w
        | Some old \<Rightarrow> run_hook (map_option (\<lambda>h. h old)
             (lookup_hook life_registry (mode_name (tabs w old)) m_saveTabState t_saveTabState)) w)
        = Inr w1"
    and f1: "doc_tabmail w1 = doc_tabmail w" "tabs w1 = tabs w"
      "doc_lifeTabBrowser w1 = doc_lifeTabBrowser w"
  proof (cases "currentTabInfo tm")
    case None
    then show ?thesis using that[of w] by simp
  next
    case (Some old)
    then show ?thesis using that run_saveTabState[of old "mode_name (tabs w old)" w] by auto
  qed
  obtain w2 where s2: "run_hook (map_option (\<lambda>h. h t)
        (lookup_hook life_registry (mode_name (tabs w1 t)) m_showTab t_showTab)) w1 = Inr w2"
    and f2: "doc_tabmail w2 = doc_tabmail w1" "tabs w2 = tabs w1"
      "doc_lifeTabBrowser w2 = doc_lifeTabBrowser w1"
    using run_showTab[of t "mode_name (tabs w1 t)" w1] by auto
  show ?thesis
    using False assms s1 s2 f1 f2
    by (simp add: switchToTab_def bindE_def notify_life_switched upd_tabmail_def)
qed

lemma tabModes_life: "tabModes life_registry ''life'' = Some (life_mode, ''life'')"
  by (simp add: life_registry_def)

lemma shouldSwitchTo_life:
  assumes "doc_tabmail w = Some tm" "tabModes_tabs tm ''life'' = Some life_tabs"
  shows "shouldSwitchTo args w
           = Inr (case life_tabs of [] \<Rightarrow> - 1 | t0 # _ \<Rightarrow> indexOf (tabInfo tm) t0, w)"
  using assms by (simp add: shouldSwitchTo_def split: list.splits)

lemma dedup_target_none:
  assumes "doc_tabmail w = Some tm" "tabModes_tabs tm ''life'' = Some []"
  shows "dedup_target life_mode args w = Inr (None, w)"
  using assms shouldSwitchTo_life[OF assms, of args]
  by (simp add: dedup_target_def life_mode_def)

lemma dedup_target_some:
  assumes "doc_tabmail w = Some tm" "tabModes_tabs tm ''life'' = Some (t # ts)"
    "t \<in> set (tabInfo tm)"
  shows "dedup_target life_mode args w = Inr (Some t, w)"
  using assms(1) shouldSwitchTo_life[OF assms(1,2), of args] indexOf_mem[OF assms(3)]
  by (simp add: dedup_target_def life_mode_def)

lemma openTab_engine_existing:
  assumes "doc_tabmail w = Some tm" "tabModes_tabs tm ''life'' = Some (t # ts)"
    "t \<in> set (tabInfo tm)"
  shows "\<exists>w'. openTab_engine life_registry ''life'' args w = Inr (t, w')
      \<and> doc_tabmail w' = Some (tm\<lparr>currentTabInfo := Some t\<rparr>) \<and> tabs w' = tabs w"
  using switchToTab_life[OF assms(1), of t] dedup_target_some[OF assms, of args]
  by (auto simp: openTab_engine_def tabModes_life bindE_def)

lemma openTab_engine_new:
  assumes "doc_tabmail w = Some tm" "tabModes_tabs tm ''life'' = Some []"
  shows "\<exists>w'. openTab_engine life_registry ''life'' args w = Inr (nextTabId tm, w')
      \<and> doc_tabmail w' = Some (tm
           \<lparr>tabInfo := tabInfo tm @ [nextTabId tm],
            currentTabInfo := (if truthy (getprop args ''background'')
                               then currentTabInfo tm else Some (nextTabId tm)),
            tabModes_tabs := (tabModes_tabs tm)(''life'' \<mapsto> [nextTabId tm]),
            nextTabId := Suc (nextTabId tm)\<rparr>)
      \<and> mode_name (tabs w' (nextTabId tm)) = ''life''
      \<and> title (tabs w' (nextTabId tm)) = Some ''Life Dashboard''
      \<and> browser (tabs w' (nextTabId tm)) = doc_lifeTabBrowser w"
proof -
  let ?t = "nextTabId tm"
  let ?nt = "\<lparr>mode_name = ''life'', tabId = ?t, title = None, icon = None, browser = None,
      panel = Some (allocate_surface (tabTypes life_registry ''life'') ?t),
      busy = False, thinking = False, canClose = True, first = (?t = 0)\<rparr>"
  let ?w2 = "upd_tabmail (\<lambda>tm'. tm'\<lparr>nextTabId := Suc ?t\<rparr>) (w\<lparr>tabs := (tabs w)(?t := ?nt)\<rparr>)"
  obtain w3 where o3: "openTab ?t args ?w2 = Inr w3"
    and f3: "doc_tabmail w3 = doc_tabmail ?w2" "doc_lifeTabBrowser w3 = doc_lifeTabBrowser ?w2"
      "tabs w3 = (tabs ?w2)(?t := (tabs ?w2 ?t)
            \<lparr>title := Some ''Life Dashboard'',
             icon := Some ''chrome://messenger/skin/icons/new/compact/calendar.svg'',
             browser := doc_lifeTabBrowser ?w2\<rparr>)"
    using openTab_frame[of ?t args ?w2] by blast
  let ?tm4 = "tm\<lparr>nextTabId := Suc ?t, tabInfo := tabInfo tm @ [?t],
                 tabModes_tabs := (tabModes_tabs tm)(''life'' \<mapsto> [?t])\<rparr>"
  let ?w4 = "upd_tabmail (\<lambda>tm'. tm'\<lparr>tabInfo := tabInfo tm' @ [?t],
                 tabModes_tabs := (tabModes_tabs tm')(''life'' \<mapsto>
                    (case tabModes_tabs tm' ''life'' of None \<Rightarrow> [] | Some ts \<Rightarrow> ts) @ [?t])\<rparr>) w3"
  have d4: "doc_tabmail ?w4 = Some ?tm4"
    using f3 assms by (simp add: upd_tabmail_def)
  have t4: "tabs ?w4 = tabs w3" "doc_lifeTabBrowser ?w4 = doc_lifeTabBrowser w3"
    by (simp_all add: upd_tabmail_def)
  obtain w6 where o6: "switchToTab life_registry ?t ?w4 = Inr w6"
    and f6: "doc_tabmail w6 = Some (?tm4\<lparr>currentTabInfo := Some ?t\<rparr>)" "tabs w6 = tabs ?w4"
    using switchToTab_life[OF d4, of ?t] by blast
  have run: "run_hook (map_option (\<lambda>h. h ?t args)
       (lookup_hook life_registry ''life'' m_openTab t_openTab)) ?w2 = Inr w3"
    using o3 by (simp add: lookup_life_openTab run_hook_def)
  have eng: "openTab_engine life_registry ''life'' args w
     = (if truthy (getprop args ''background'') then Inr (?t, ?w4) else Inr (?t, w6))"
    using assms dedup_target_none[OF assms, of args] run o6
    by (simp add: openTab_engine_def tabModes_life bindE_def life_mode_def
        notify_life_opened Let_def)
  have tw2: "tabs ?w2 = (tabs w)(?t := ?nt)" "doc_lifeTabBrowser ?w2 = doc_lifeTabBrowser w"
    by (simp_all add: upd_tabmail_def)
  have r1: "tm\<lparr>tabInfo := tabInfo tm @ [?t], currentTabInfo := currentTabInfo tm,
            tabModes_tabs := (tabModes_tabs tm)(''life'' \<mapsto> [?t]),
            nextTabId := Suc ?t\<rparr> = ?tm4"
    by simp
  have r2: "tm\<lparr>tabInfo := tabInfo tm @ [?t], currentTabInfo := Some ?t,
            tabModes_tabs := (tabModes_tabs tm)(''life'' \<mapsto> [?t]),
            nextTabId := Suc ?t\<rparr> = ?tm4\<lparr>currentTabInfo := Some ?t\<rparr>"
    by simp
  show ?thesis
  proof (cases "truthy (getprop args ''background'')")
    case True
    have "doc_tabmail ?w4 = Some ?tm4 \<and> mode_name (tabs ?w4 ?t) = ''life''
        \<and> title (tabs ?w4 ?t) = Some ''Life Dashboard''
        \<and> browser (tabs ?w4 ?t) = doc_lifeTabBrowser w"
      using d4 by (simp add: t4 f3 tw2)
    with True eng show ?thesis
      by (simp only: if_True r1) blast
  next
    case False
    have "doc_tabmail w6 = Some (?tm4\<lparr>currentTabInfo := Some ?t\<rparr>)
        \<and> mode_name (tabs w6 ?t) = ''life''
        \<and> title (tabs w6 ?t) = Some ''Life Dashboard''
        \<and> browser (tabs w6 ?t) = doc_lifeTabBrowser w"
      using f6(1) by (simp add: f6(2) t4 f3 tw2)
    with False eng show ?thesis
      by (simp only: if_False r2) blast
  qed
qed

subsection \<open>The example windows\<close>

lemma onload_fresh:
  "window_onload (empty_registry, fresh_window) = Inr (life_registry, loaded_window)"
  by (simp add: window_onload_def fresh_window_def registerTabType_def registerTabMonitor_def
      empty_registry_def lifeTabType_def exactly_one_presentation_def bindE_def life_registry_def
      loaded_window_def loaded_tabmail_def upd_tabmail_def lifeTabMonitor_def)

lemma first_open:
  "openTab_engine life_registry ''life'' Map.empty loaded_window = Inr (0, one_life_window)"
  apply (simp add: openTab_engine_def tabModes_life bindE_def dedup_target_def life_mode_def
      shouldSwitchTo_def loaded_window_def loaded_tabmail_def Let_def upd_tabmail_def
      lookup_life_openTab run_hook_def openTab_def setIcon_def set_title_def set_browser_def
      setAttribute_def loadURI_def js_or_def getprop_def notify_life_opened
      switchToTab_def lookup_life_showTab showTab_def notify_life_switched
      allocate_surface_def one_life_window_def one_life_tabmail_def blank_browser_def blank_tab_def)
  apply (simp add: life_registry_def lifeTabType_def fun_eq_iff)
  done

subsection \<open>Persisting and restoring\<close>

lemma persistTab_background:
  assumes "doc_tabmail w = Some tm"
  shows "\<exists>state. persistTab tab w = Inr (state, w)
      \<and> getprop state ''background'' = JBool (Some tab \<noteq> currentTabInfo tm)"
  using assms by (simp add: persistTab_def Let_def getprop_def)

lemma restoreTab_engine_new:
  assumes "doc_tabmail w0 = Some tm0" and "tabModes_tabs tm0 ''life'' = Some []"
    and "currentTabInfo tm0 \<noteq> Some (nextTabId tm0)"
    and "getprop state ''background'' = JBool bg"
  shows "\<exists>w1 tm1. restoreTab (openTab_engine life_registry) state w0 = Inr w1
      \<and> doc_tabmail w1 = Some tm1 \<and> tabInfo tm1 = tabInfo tm0 @ [nextTabId tm0]
      \<and> tabModes_tabs tm1 ''life'' = Some [nextTabId tm0]
      \<and> mode_name (tabs w1 (nextTabId tm0)) = ''life''
      \<and> (currentTabInfo tm1 = Some (nextTabId tm0)) = (\<not> bg)"
proof -
  let ?args = "[''background'' \<mapsto> getprop state ''background'']"
  have "getprop ?args ''background'' = getprop state ''background''"
    by (simp add: getprop_def)
  then have tr: "truthy (getprop ?args ''background'') = bg"
    by (simp only: assms(4) truthy.simps)
  from openTab_engine_new[OF assms(1,2), of ?args] obtain w' where
    o: "openTab_engine life_registry ''life'' ?args w0 = Inr (nextTabId tm0, w')"
    and d: "doc_tabmail w' = Some (tm0
           \<lparr>tabInfo := tabInfo tm0 @ [nextTabId tm0],
            currentTabInfo := (if truthy (getprop ?args ''background'')
                               then currentTabInfo tm0 else Some (nextTabId tm0)),
            tabModes_tabs := (tabModes_tabs tm0)(''life'' \<mapsto> [nextTabId tm0]),
            nextTabId := Suc (nextTabId tm0)\<rparr>)"
    and m: "mode_name (tabs w' (nextTabId tm0)) = ''life''"
    by blast
  have r: "restoreTab (openTab_engine life_registry) state w0 = Inr w'"
    by (simp add: restoreTab_def o)
  show ?thesis
    using r d m assms(3) by (auto simp: tr)
qed

section \<open>The claims\<close>

text \<open>
  C1. The life mode is declared with \<open>maxTabs = 1\<close> in the type with the shared panel
  \<open>lifeTabPanel\<close>. In a window whose tabmail element tracks the life mode and holds
  every tab of the mode in its tab list, \<open>shouldSwitchTo(args)\<close> returns \<open>-1\<close> when no life
  tab is open and otherwise the index in \<open>tabInfo\<close> of the open life tab, for every
  \<open>args\<close>. With the engine of the specification and the life type registered, an
  \<open>openTab("life", args)\<close> while a life tab is open therefore switches to that tab and
  returns its handle; the tab collection and its length stay as they were.
\<close>

theorem life_shouldSwitchTo_dedup:
  assumes "doc_tabmail w = Some tm" and "tabModes_tabs tm ''life'' = Some life_tabs"
    and "set life_tabs \<subseteq> set (tabInfo tm)"
  shows "maxTabs life_mode = Some 1 \<and> panelId lifeTabType = Some ''lifeTabPanel''
     \<and> (life_tabs = [] \<longrightarrow> shouldSwitchTo args w = Inr (- 1, w))
     \<and> (\<forall>t ts. life_tabs = t # ts \<longrightarrow>
          (\<exists>i. shouldSwitchTo args w = Inr (int i, w) \<and> i < length (tabInfo tm)
                \<and> tabInfo tm ! i = t)
          \<and> (\<exists>w' tm'. openTab_engine life_registry ''life'' args w = Inr (t, w')
                \<and> doc_tabmail w' = Some tm' \<and> tabInfo tm' = tabInfo tm
                \<and> length (tabInfo tm') = length (tabInfo tm)
                \<and> tabModes_tabs tm' = tabModes_tabs tm
                \<and> currentTabInfo tm' = Some t \<and> tabs w' = tabs w))"
proof -
  have a: "maxTabs life_mode = Some 1" "panelId lifeTabType = Some ''lifeTabPanel''"
    by (simp_all add: life_mode_def lifeTabType_def)
  have b: "life_tabs = [] \<longrightarrow> shouldSwitchTo args w = Inr (- 1, w)"
    using shouldSwitchTo_life[OF assms(1,2), of args] by simp
  have c: "\<forall>t ts. life_tabs = t # ts \<longrightarrow>
          (\<exists>i. shouldSwitchTo args w = Inr (int i, w) \<and> i < length (tabInfo tm)
                \<and> tabInfo tm ! i = t)
          \<and> (\<exists>w' tm'. openTab_engine life_registry ''life'' args w = Inr (t, w')
                \<and> doc_tabmail w' = Some tm' \<and> tabInfo tm' = tabInfo tm
                \<and> length (tabInfo tm') = length (tabInfo tm)
                \<and> tabModes_tabs tm' = tabModes_tabs tm
                \<and> currentTabInfo tm' = Some t \<and> tabs w' = tabs w)"
  proof (intro allI impI)
    fix t ts
    assume lt: "life_tabs = t # ts"
    with assms(3) have mem: "t \<in> set (tabInfo tm)" by simp
    from assms(2) lt have mt: "tabModes_tabs tm ''life'' = Some (t # ts)" by simp
    let ?i = "nat (indexOf (tabInfo tm) t)"
    from indexOf_mem[OF mem] have ix: "indexOf (tabInfo tm) t = int ?i"
      "?i < length (tabInfo tm)" "tabInfo tm ! ?i = t"
      by simp_all
    have s: "shouldSwitchTo args w = Inr (int ?i, w)"
      using shouldSwitchTo_life[OF assms(1) mt, of args] ix(1) by simp
    from openTab_engine_existing[OF assms(1) mt mem, of args] obtain w' where
      o: "openTab_engine life_registry ''life'' args w = Inr (t, w')"
      and d: "doc_tabmail w' = Some (tm\<lparr>currentTabInfo := Some t\<rparr>)" and tb: "tabs w' = tabs w"
      by blast
    from s ix(2,3) have p1: "\<exists>i. shouldSwitchTo args w = Inr (int i, w)
        \<and> i < length (tabInfo tm) \<and> tabInfo tm ! i = t"
      by blast
    from o d tb have p2: "\<exists>w' tm'. openTab_engine life_registry ''life'' args w = Inr (t, w')
                \<and> doc_tabmail w' = Some tm' \<and> tabInfo tm' = tabInfo tm
                \<and> length (tabInfo tm') = length (tabInfo tm)
                \<and> tabModes_tabs tm' = tabModes_tabs tm
                \<and> currentTabInfo tm' = Some t \<and> tabs w' = tabs w"
      by (intro exI[of _ w'] exI[of _ "tm\<lparr>currentTabInfo := Some t\<rparr>"]) simp
    from p1 p2 show "(\<exists>i. shouldSwitchTo args w = Inr (int i, w) \<and> i < length (tabInfo tm)
                \<and> tabInfo tm ! i = t)
          \<and> (\<exists>w' tm'. openTab_engine life_registry ''life'' args w = Inr (t, w')
                \<and> doc_tabmail w' = Some tm' \<and> tabInfo tm' = tabInfo tm
                \<and> length (tabInfo tm') = length (tabInfo tm)
                \<and> tabModes_tabs tm' = tabModes_tabs tm
                \<and> currentTabInfo tm' = Some t \<and> tabs w' = tabs w)"
      by (rule conjI)
  qed
  from a b c show ?thesis by (intro conjI)
qed

text \<open>
  The scenario from the fresh window: the listener registers the type, the first
  \<open>openTab("life", {})\<close> opens tab 0, the second returns tab 0 and the collection keeps
  its length 1.
\<close>

theorem life_shouldSwitchTo_dedup_witness:
  "window_onload (empty_registry, fresh_window) = Inr (life_registry, loaded_window)
   \<and> shouldSwitchTo Map.empty loaded_window = Inr (- 1, loaded_window)
   \<and> openTab_engine life_registry ''life'' Map.empty loaded_window = Inr (0, one_life_window)
   \<and> (\<exists>i. shouldSwitchTo Map.empty one_life_window = Inr (int i, one_life_window)
         \<and> i < 1 \<and> [0::nat] ! i = 0)
   \<and> (\<exists>w' tm'. openTab_engine life_registry ''life'' Map.empty one_life_window = Inr (0, w')
         \<and> doc_tabmail w' = Some tm' \<and> tabInfo tm' = [0] \<and> length (tabInfo tm') = 1
         \<and> currentTabInfo tm' = Some 0)"
proof -
  have l1: "doc_tabmail loaded_window = Some loaded_tabmail"
    and l2: "tabModes_tabs loaded_tabmail ''life'' = Some []"
    and l3: "set ([]::nat list) \<subseteq> set (tabInfo loaded_tabmail)"
    by (simp_all add: loaded_window_def loaded_tabmail_def)
  have o1: "doc_tabmail one_life_window = Some one_life_tabmail"
    and o2: "tabModes_tabs one_life_tabmail ''life'' = Some [0]"
    and o3: "set [0::nat] \<subseteq> set (tabInfo one_life_tabmail)"
    and o4: "tabInfo one_life_tabmail = [0]"
    by (simp_all add: one_life_window_def one_life_tabmail_def)
  from life_shouldSwitchTo_dedup[OF l1 l2 l3, of Map.empty]
  have a: "shouldSwitchTo Map.empty loaded_window = Inr (- 1, loaded_window)"
    by blast
  from life_shouldSwitchTo_dedup[OF o1 o2 o3, of Map.empty]
  have b: "(\<exists>i. shouldSwitchTo Map.empty one_life_window = Inr (int i, one_life_window)
         \<and> i < length (tabInfo one_life_tabmail) \<and> tabInfo one_life_tabmail ! i = 0)
     \<and> (\<exists>w' tm'. openTab_engine life_registry ''life'' Map.empty one_life_window = Inr (0, w')
                \<and> doc_tabmail w' = Some tm' \<and> tabInfo tm' = tabInfo one_life_tabmail
                \<and> length (tabInfo tm') = length (tabInfo one_life_tabmail)
                \<and> tabModes_tabs tm' = tabModes_tabs one_life_tabmail
                \<and> currentTabInfo tm' = Some 0 \<and> tabs w' = tabs one_life_window)"
    by blast
  from b have b1: "\<exists>i. shouldSwitchTo Map.empty one_life_window = Inr (int i, one_life_window)
         \<and> i < 1 \<and> [0::nat] ! i = 0"
    by (simp add: o4)
  from b have b2: "\<exists>w' tm'. openTab_engine life_registry ''life'' Map.empty one_life_window
           = Inr (0, w')
         \<and> doc_tabmail w' = Some tm' \<and> tabInfo tm' = [0] \<and> length (tabInfo tm') = 1
         \<and> currentTabInfo tm' = Some 0"
    by (auto simp: o4)
  from onload_fresh a first_open b1 b2 show ?thesis
    by (intro conjI)
qed

text \<open>
  C2. For a life tab in a window with a tabmail element, \<open>persistTab\<close> succeeds, and
  \<open>restoreTab\<close> on the record it produced calls the engine's \<open>openTab\<close> with the mode
  name \<open>"life"\<close> and a \<open>background\<close> flag that is true exactly when the tab was not the
  selected one. With the engine of the specification, the life type registered and no
  life tab open yet, the restore opens a life tab that is selected exactly when the
  saved tab was.
\<close>

theorem life_persist_restore_roundtrip:
  assumes "doc_tabmail w = Some tm"
  shows "\<exists>state. persistTab tab w = Inr (state, w)
     \<and> restoreTab report_call state w0
         = Inl (''life'', [''background'' \<mapsto> JBool (Some tab \<noteq> currentTabInfo tm)])
     \<and> (\<forall>f. restoreTab f state w0
           = (case f ''life'' [''background'' \<mapsto> JBool (Some tab \<noteq> currentTabInfo tm)] w0 of
                Inl e \<Rightarrow> Inl e | Inr (r, w') \<Rightarrow> Inr w'))
     \<and> (\<forall>tm0. doc_tabmail w0 = Some tm0 \<and> tabModes_tabs tm0 ''life'' = Some []
              \<and> currentTabInfo tm0 \<noteq> Some (nextTabId tm0) \<longrightarrow>
           (\<exists>w1 tm1. restoreTab (openTab_engine life_registry) state w0 = Inr w1
              \<and> doc_tabmail w1 = Some tm1 \<and> tabInfo tm1 = tabInfo tm0 @ [nextTabId tm0]
              \<and> tabModes_tabs tm1 ''life'' = Some [nextTabId tm0]
              \<and> mode_name (tabs w1 (nextTabId tm0)) = ''life''
              \<and> (currentTabInfo tm1 = Some (nextTabId tm0)) = (currentTabInfo tm = Some tab)))"
proof -
  from persistTab_background[OF assms, of tab] obtain state where
    p: "persistTab tab w = Inr (state, w)"
    and g: "getprop state ''background'' = JBool (Some tab \<noteq> currentTabInfo tm)"
    by blast
  have a: "restoreTab report_call state w0
         = Inl (''life'', [''background'' \<mapsto> JBool (Some tab \<noteq> currentTabInfo tm)])"
    by (simp add: restoreTab_def report_call_def g)
  have b: "\<forall>f. restoreTab f state w0
           = (case f ''life'' [''background'' \<mapsto> JBool (Some tab \<noteq> currentTabInfo tm)] w0 of
                Inl e \<Rightarrow> Inl e | Inr (r, w') \<Rightarrow> Inr w')"
    by (simp add: restoreTab_def g)
  have c: "\<forall>tm0. doc_tabmail w0 = Some tm0 \<and> tabModes_tabs tm0 ''life'' = Some []
              \<and> currentTabInfo tm0 \<noteq> Some (nextTabId tm0) \<longrightarrow>
           (\<exists>w1 tm1. restoreTab (openTab_engine life_registry) state w0 = Inr w1
              \<and> doc_tabmail w1 = Some tm1 \<and> tabInfo tm1 = tabInfo tm0 @ [nextTabId tm0]
              \<and> tabModes_tabs tm1 ''life'' = Some [nextTabId tm0]
              \<and> mode_name (tabs w1 (nextTabId tm0)) = ''life''
              \<and> (currentTabInfo tm1 = Some (nextTabId tm0)) = (currentTabInfo tm = Some tab))"
  proof (intro allI impI)
    fix tm0
    assume h: "doc_tabmail w0 = Some tm0 \<and> tabModes_tabs tm0 ''life'' = Some []
              \<and> currentTabInfo tm0 \<noteq> Some (nextTabId tm0)"
    have e: "(\<not> (Some tab \<noteq> currentTabInfo tm)) = (currentTabInfo tm = Some tab)"
      by auto
    from h restoreTab_engine_new[of w0 tm0 state "Some tab \<noteq> currentTabInfo tm", OF _ _ _ g]
    show "\<exists>w1 tm1. restoreTab (openTab_engine life_registry) state w0 = Inr w1
              \<and> doc_tabmail w1 = Some tm1 \<and> tabInfo tm1 = tabInfo tm0 @ [nextTabId tm0]
              \<and> tabModes_tabs tm1 ''life'' = Some [nextTabId tm0]
              \<and> mode_name (tabs w1 (nextTabId tm0)) = ''life''
              \<and> (currentTabInfo tm1 = Some (nextTabId tm0)) = (currentTabInfo tm = Some tab)"
      unfolding e by blast
  qed
  from p a b c show ?thesis by blast
qed

text \<open>
  The selected life tab of the example window is saved and restored into the window
  the listener left: tab 0 is a life tab again and is selected.
\<close>

theorem life_persist_restore_roundtrip_witness:
  "doc_tabmail one_life_window = Some one_life_tabmail
   \<and> currentTabInfo one_life_tabmail = Some 0
   \<and> (\<exists>state. persistTab 0 one_life_window = Inr (state, one_life_window)
        \<and> restoreTab report_call state loaded_window
            = Inl (''life'', [''background'' \<mapsto> JBool False])
        \<and> (\<exists>w1 tm1. restoreTab (openTab_engine life_registry) state loaded_window = Inr w1
              \<and> doc_tabmail w1 = Some tm1 \<and> tabInfo tm1 = [0]
              \<and> tabModes_tabs tm1 ''life'' = Some [0]
              \<and> mode_name (tabs w1 0) = ''life''
              \<and> currentTabInfo tm1 = Some 0))"
proof -
  have h: "doc_tabmail one_life_window = Some one_life_tabmail"
    by (simp add: one_life_window_def)
  have c: "currentTabInfo one_life_tabmail = Some 0"
    by (simp add: one_life_tabmail_def)
  have l: "doc_tabmail loaded_window = Some loaded_tabmail
      \<and> tabModes_tabs loaded_tabmail ''life'' = Some []
      \<and> currentTabInfo loaded_tabmail \<noteq> Some (nextTabId loaded_tabmail)"
    by (simp add: loaded_window_def loaded_tabmail_def)
  have n: "nextTabId loaded_tabmail = 0" "tabInfo loaded_tabmail = []"
    by (simp_all add: loaded_tabmail_def)
  from life_persist_restore_roundtrip[OF h, of 0 loaded_window] obtain state where
    p: "persistTab 0 one_life_window = Inr (state, one_life_window)"
    and a: "restoreTab report_call state loaded_window
         = Inl (''life'', [''background'' \<mapsto> JBool (Some 0 \<noteq> currentTabInfo one_life_tabmail)])"
    and r: "\<forall>tm0. doc_tabmail loaded_window = Some tm0 \<and> tabModes_tabs tm0 ''life'' = Some []
              \<and> currentTabInfo tm0 \<noteq> Some (nextTabId tm0) \<longrightarrow>
           (\<exists>w1 tm1. restoreTab (openTab_engine life_registry) state loaded_window = Inr w1
              \<and> doc_tabmail w1 = Some tm1 \<and> tabInfo tm1 = tabInfo tm0 @ [nextTabId tm0]
              \<and> tabModes_tabs tm1 ''life'' = Some [nextTabId tm0]
              \<and> mode_name (tabs w1 (nextTabId tm0)) = ''life''
              \<and> (currentTabInfo tm1 = Some (nextTabId tm0))
                  = (currentTabInfo one_life_tabmail = Some 0))"
    by blast
  from a have a': "restoreTab report_call state loaded_window
            = Inl (''life'', [''background'' \<mapsto> JBool False])"
    by (simp add: c)
  from r l have "\<exists>w1 tm1. restoreTab (openTab_engine life_registry) state loaded_window = Inr w1
              \<and> doc_tabmail w1 = Some tm1
              \<and> tabInfo tm1 = tabInfo loaded_tabmail @ [nextTabId loaded_tabmail]
              \<and> tabModes_tabs tm1 ''life'' = Some [nextTabId loaded_tabmail]
              \<and> mode_name (tabs w1 (nextTabId loaded_tabmail)) = ''life''
              \<and> (currentTabInfo tm1 = Some (nextTabId loaded_tabmail))
                  = (currentTabInfo one_life_tabmail = Some 0)"
    by blast
  then have r': "\<exists>w1 tm1. restoreTab (openTab_engine life_registry) state loaded_window = Inr w1
              \<and> doc_tabmail w1 = Some tm1 \<and> tabInfo tm1 = [0]
              \<and> tabModes_tabs tm1 ''life'' = Some [0]
              \<and> mode_name (tabs w1 0) = ''life''
              \<and> currentTabInfo tm1 = Some 0"
    by (simp add: n c)
  from h c p a' r' show ?thesis by blast
qed

text \<open>
  C3. In a window with a tabmail element \<open>persistTab\<close> never fails and changes nothing.
  The record it returns has \<open>background\<close> true exactly when the tab is not
  \<open>tabmail.currentTabInfo\<close>, and has a \<open>url\<close> property, the spec of the current URI,
  exactly when the tab's browser element exposes a current URI. It has no other
  property.
\<close>

theorem persistTab_record:
  assumes "doc_tabmail w = Some tm"
  shows "\<exists>state. persistTab tab w = Inr (state, w)
      \<and> state ''background'' = Some (JBool (Some tab \<noteq> currentTabInfo tm))
      \<and> (''url'' \<in> dom state)
          = (\<exists>b. browser (tabs w tab) = Some b \<and> currentURI (elems w b) \<noteq> None)
      \<and> (\<forall>b u. browser (tabs w tab) = Some b \<and> currentURI (elems w b) = Some u
            \<longrightarrow> state ''url'' = Some (JStr (spec u)))
      \<and> dom state \<subseteq> {''background'', ''url''}"
proof -
  have v: "\<And>b u. browser (tabs w tab) = Some b \<Longrightarrow> currentURI (elems w b) = Some u
      \<Longrightarrow> browser_spec tab w = JStr (spec u)"
    by (simp add: browser_spec_def)
  show ?thesis
    using assms v by (auto simp: persistTab_def truthy_browser_spec Let_def)
qed

text \<open>
  The selected life tab whose browser shows the backend.
\<close>

theorem persistTab_record_witness:
  "doc_tabmail navigated_window = Some one_life_tabmail
   \<and> (\<exists>state. persistTab 0 navigated_window = Inr (state, navigated_window)
        \<and> state ''background'' = Some (JBool False)
        \<and> state ''url'' = Some (JStr ''http://localhost:8000/''))"
proof -
  have h: "doc_tabmail navigated_window = Some one_life_tabmail"
    by (simp add: navigated_window_def one_life_window_def)
  have b: "browser (tabs navigated_window 0) = Some 0
      \<and> currentURI (elems navigated_window 0)
          = Some \<lparr>scheme = ''http'', schemeSpecificPart = ''//localhost:8000/''\<rparr>"
    by (simp add: navigated_window_def one_life_window_def)
  have c: "Some (0::nat) = currentTabInfo one_life_tabmail"
    by (simp add: one_life_tabmail_def)
  have s: "spec \<lparr>scheme = ''http'', schemeSpecificPart = ''//localhost:8000/''\<rparr>
      = ''http://localhost:8000/''"
    by (simp add: spec_def)
  from persistTab_record[OF h, of 0] obtain state where
    p: "persistTab 0 navigated_window = Inr (state, navigated_window)"
    and g: "state ''background'' = Some (JBool (Some 0 \<noteq> currentTabInfo one_life_tabmail))"
    and u: "\<forall>b u. browser (tabs navigated_window 0) = Some b
              \<and> currentURI (elems navigated_window b) = Some u
            \<longrightarrow> state ''url'' = Some (JStr (spec u))"
    by blast
  from u b have "state ''url''
      = Some (JStr (spec \<lparr>scheme = ''http'', schemeSpecificPart = ''//localhost:8000/''\<rparr>))"
    by blast
  then have u': "state ''url'' = Some (JStr ''http://localhost:8000/'')"
    by (simp only: s)
  from g c have g': "state ''background'' = Some (JBool False)"
    by simp
  from h p g' u' show ?thesis
    by blast
qed

text \<open>
  C4. For a tab that holds a browser, the type-level \<open>saveTabState\<close> leaves that
  browser without the \<open>primary\<close> attribute and \<open>showTab\<close> of the life mode leaves it
  with \<open>primary="true"\<close>. After \<open>saveTabState\<close> of the outgoing tab followed by
  \<open>showTab\<close> of the incoming tab, a browser that carries \<open>primary\<close> is the incoming
  tab's, or carried it before and is not the outgoing tab's; so when at most the
  outgoing tab's browser carried it before the switch, exactly the incoming tab's
  browser carries it afterwards.
\<close>

theorem primary_exclusive:
  assumes "browser (tabs w t_out) = Some b_out" and "browser (tabs w t_in) = Some b_in"
  shows "(\<exists>w1. saveTabState t_out w = Inr w1 \<and> attrs (elems w1 b_out) ''primary'' = None)
     \<and> (\<exists>w2. showTab t_in w = Inr w2 \<and> attrs (elems w2 b_in) ''primary'' = Some ''true'')
     \<and> (\<exists>w3. bindE (saveTabState t_out w) (showTab t_in) = Inr w3
          \<and> attrs (elems w3 b_in) ''primary'' = Some ''true''
          \<and> {e. attrs (elems w3 e) ''primary'' \<noteq> None}
               \<subseteq> insert b_in ({e. attrs (elems w e) ''primary'' \<noteq> None} - {b_out})
          \<and> ({e. attrs (elems w e) ''primary'' \<noteq> None} \<subseteq> {b_out}
               \<longrightarrow> {e. attrs (elems w3 e) ''primary'' \<noteq> None} = {b_in}))"
  using assms
  by (auto simp: saveTabState_def showTab_def bindE_def setAttribute_def removeAttribute_def
      split: if_splits)

text \<open>
  A switch from tab 0 to tab 1 of the window with two browsers.
\<close>

theorem primary_exclusive_witness:
  "browser (tabs two_tab_window 0) = Some 0 \<and> browser (tabs two_tab_window 1) = Some 1
   \<and> {e. attrs (elems two_tab_window e) ''primary'' \<noteq> None} = {0}
   \<and> (\<exists>w3. bindE (saveTabState 0 two_tab_window) (showTab 1) = Inr w3
        \<and> {e. attrs (elems w3 e) ''primary'' \<noteq> None} = {1})"
proof -
  have h0: "browser (tabs two_tab_window 0) = Some 0"
    and h1: "browser (tabs two_tab_window 1) = Some 1"
    by (simp_all add: two_tab_window_def blank_tab_def)
  have p: "{e. attrs (elems two_tab_window e) ''primary'' \<noteq> None} = {0}"
    by (auto simp: two_tab_window_def blank_browser_def split: if_splits)
  from primary_exclusive[OF h0 h1] p h0 h1 show ?thesis
    by auto
qed

text \<open>
  C5. \<open>lifeTabType\<close> sets exactly one presentation strategy: it declares
  \<open>panelId = "lifeTabPanel"\<close> and no \<open>perTabPanel\<close>. Registering it, in whatever state
  the registry is, does not fail with \<open>InvalidDescriptor\<close>.
\<close>

theorem lifeTabType_presentation:
  "panelId lifeTabType = Some ''lifeTabPanel'' \<and> perTabPanel lifeTabType = None
   \<and> exactly_one_presentation lifeTabType
   \<and> registerTabType lifeTabType rw \<noteq> Inl InvalidDescriptor"
  by (simp add: lifeTabType_def exactly_one_presentation_def registerTabType_def Let_def)

text \<open>
  C6. The \<open>onTitleChanged\<close> hook of the life mode sets the title of the tab to the
  constant \<open>"Life Dashboard"\<close>, whatever the title was, and is idempotent: run on its own
  result it changes nothing, so running it twice is running it once.
\<close>

theorem onTitleChanged_constant_idempotent:
  "\<exists>w'. onTitleChanged tab w = Inr w' \<and> title (tabs w' tab) = Some ''Life Dashboard''
      \<and> onTitleChanged tab w' = Inr w'
      \<and> bindE (onTitleChanged tab w) (onTitleChanged tab) = onTitleChanged tab w"
  by (simp add: onTitleChanged_def set_title_def bindE_def)

text \<open>
  C7. On a life tab no command is supported and none is enabled, whatever its name, and
  \<open>doCommand\<close> returns normally and leaves the window as it was.
\<close>

theorem life_commands_unsupported:
  "supportsCommand aCommand w = Inr (False, w) \<and> isCommandEnabled aCommand w = Inr (False, w)
     \<and> doCommand aCommand w = Inr w"
  by (simp add: supportsCommand_def isCommandEnabled_def doCommand_def)

text \<open>
  C8. The persisted \<open>url\<close> does not reach the restore: for two persisted states that
  agree on every property but \<open>url\<close>, \<open>restoreTab\<close> (of either copy) does the same with
  every engine, and the call it makes is \<open>openTab("life", {background})\<close> with the
  \<open>background\<close> of the state and nothing else.
\<close>

theorem restoreTab_url_noninterference:
  assumes "state1(''url'' := None) = state2(''url'' := None)"
  shows "restoreTab f state1 w = restoreTab f state2 w
     \<and> restoreTab_alt f state1 w = restoreTab_alt f state2 w
     \<and> restoreTab report_call state1 w
         = Inl (''life'', [''background'' \<mapsto> getprop state1 ''background''])
     \<and> restoreTab report_call state2 w = restoreTab report_call state1 w"
proof -
  have "(state1(''url'' := None)) ''background'' = (state2(''url'' := None)) ''background''"
    by (simp only: assms)
  then have "state1 ''background'' = state2 ''background''"
    by simp
  then have g: "getprop state1 ''background'' = getprop state2 ''background''"
    by (simp add: getprop_def)
  show ?thesis
    by (simp add: restoreTab_def restoreTab_alt_def report_call_def g)
qed

text \<open>
  One state with a \<open>url\<close>, one without: the same call.
\<close>

theorem restoreTab_url_noninterference_witness:
  "persisted_with_url(''url'' := None) = persisted_without_url(''url'' := None)
   \<and> persisted_with_url ''url'' \<noteq> persisted_without_url ''url''
   \<and> restoreTab report_call persisted_with_url fresh_window
       = Inl (''life'', [''background'' \<mapsto> JBool True])
   \<and> restoreTab report_call persisted_without_url fresh_window
       = Inl (''life'', [''background'' \<mapsto> JBool True])"
proof -
  have h: "persisted_with_url(''url'' := None) = persisted_without_url(''url'' := None)"
    by (simp add: persisted_with_url_def persisted_without_url_def fun_eq_iff)
  have d: "persisted_with_url ''url'' \<noteq> persisted_without_url ''url''"
    by (simp add: persisted_with_url_def persisted_without_url_def)
  have g: "getprop persisted_with_url ''background'' = JBool True"
    by (simp add: getprop_def persisted_with_url_def)
  note t = restoreTab_url_noninterference[OF h, of report_call fresh_window]
  have a: "restoreTab report_call persisted_with_url fresh_window
       = Inl (''life'', [''background'' \<mapsto> JBool True])"
    using t[THEN conjunct2, THEN conjunct2, THEN conjunct1] unfolding g .
  have b: "restoreTab report_call persisted_without_url fresh_window
      = restoreTab report_call persisted_with_url fresh_window"
    using t[THEN conjunct2, THEN conjunct2, THEN conjunct2] .
  from b a have c: "restoreTab report_call persisted_without_url fresh_window
       = Inl (''life'', [''background'' \<mapsto> JBool True])"
    by (rule trans)
  from h d a c show ?thesis
    by (intro conjI)
qed

text \<open>
  C9. \<open>lifeTabMonitor\<close> is a pure observer: each of its six handlers returns normally,
  for every tab (or \<open>null\<close>) it is given, and leaves the window, the tabs and the engine
  state in it, unchanged.
\<close>

theorem lifeTabMonitor_pure_observer:
  "mon_onTabTitleChanged lifeTabMonitor t w = Inr w
   \<and> mon_onTabOpened lifeTabMonitor t w = Inr w
   \<and> mon_onTabClosing lifeTabMonitor t w = Inr w
   \<and> mon_onTabPersist lifeTabMonitor t w = Inr w
   \<and> mon_onTabRestored lifeTabMonitor t w = Inr w
   \<and> mon_onTabSwitched lifeTabMonitor aNewTab aOldTab w = Inr w"
  by (simp add: lifeTabMonitor_def onTabTitleChanged_def onTabOpened_def onTabClosing_def
      onTabPersist_def onTabRestored_def onTabSwitched_def)




end
